theory Spec2Isabelle
  imports Complex_Main
begin

section \<open>JavaScript values\<close>

text \<open>
  The chain of \<^verbatim>\<open>src/validation.js\<close> validates one value of any JavaScript type.
  Numbers are IEEE doubles; the checks only compare them and test them for NaN, so a
  number is NaN, an infinity or a finite rational (one zero: \<^verbatim>\<open>-0 === 0\<close>).
  Arrays and objects carry the reference that \<^verbatim>\<open>===\<close> compares. An object is a plain
  object: its own string-keyed properties in order, and the number of its own
  symbol-keyed properties.
\<close>

datatype jsnum = NaN | PosInf | NegInf | Fin rat

datatype jsval =
    JUndefined
  | JNull
  | JBool bool
  | JNum jsnum
  | JStr string
  | JArr nat "jsval list"
  | JObj nat "(string \<times> jsval) list" nat

datatype js_exception =
    Error string
  | TypeError
  | SyntaxError
  | JoiAssertion

fun typeof :: "jsval \<Rightarrow> string" where
  "typeof JUndefined = ''undefined''"
| "typeof JNull = ''object''"
| "typeof (JBool b) = ''boolean''"
| "typeof (JNum n) = ''number''"
| "typeof (JStr s) = ''string''"
| "typeof (JArr r xs) = ''object''"
| "typeof (JObj r ps k) = ''object''"

text \<open>\<^verbatim>\<open>a === b\<close>: NaN differs from itself, arrays and objects are equal by reference.\<close>

fun strict_eq :: "jsval \<Rightarrow> jsval \<Rightarrow> bool" where
  "strict_eq JUndefined JUndefined = True"
| "strict_eq JNull JNull = True"
| "strict_eq (JBool a) (JBool b) = (a = b)"
| "strict_eq (JNum a) (JNum b) = (a \<noteq> NaN \<and> a = b)"
| "strict_eq (JStr a) (JStr b) = (a = b)"
| "strict_eq (JArr r xs) (JArr r' ys) = (r = r')"
| "strict_eq (JObj r ps k) (JObj r' qs k') = (r = r')"
| "strict_eq _ _ = False"

text \<open>SameValueZero, the comparison of \<^verbatim>\<open>Array.prototype.includes\<close>: NaN equals NaN.\<close>

fun same_value_zero :: "jsval \<Rightarrow> jsval \<Rightarrow> bool" where
  "same_value_zero (JNum a) (JNum b) = (a = b)"
| "same_value_zero a b = strict_eq a b"

fun truthy :: "jsval \<Rightarrow> bool" where
  "truthy JUndefined = False"
| "truthy JNull = False"
| "truthy (JBool b) = b"
| "truthy (JNum n) = (n \<noteq> NaN \<and> n \<noteq> Fin 0)"
| "truthy (JStr s) = (s \<noteq> [])"
| "truthy (JArr r xs) = True"
| "truthy (JObj r ps k) = True"

fun Array_isArray :: "jsval \<Rightarrow> bool" where
  "Array_isArray (JArr r xs) = True"
| "Array_isArray _ = False"

fun elements :: "jsval \<Rightarrow> jsval list" where
  "elements (JArr r xs) = xs"
| "elements _ = []"

text \<open>\<^verbatim>\<open>xs.indexOf(x)\<close>: the first index whose element is \<^verbatim>\<open>=== x\<close>, or -1.\<close>

fun indexOf_from :: "jsval list \<Rightarrow> jsval \<Rightarrow> int \<Rightarrow> int" where
  "indexOf_from [] x i = - 1"
| "indexOf_from (y # ys) x i = (if strict_eq y x then i else indexOf_from ys x (i + 1))"

definition indexOf :: "jsval list \<Rightarrow> jsval \<Rightarrow> int" where
  "indexOf xs x = indexOf_from xs x 0"

definition array_includes :: "jsval list \<Rightarrow> jsval \<Rightarrow> bool" where
  "array_includes xs x = list_ex (\<lambda>y. same_value_zero y x) xs"

text \<open>\<^verbatim>\<open>xs.join(sep)\<close> on an array of strings.\<close>

fun join :: "string list \<Rightarrow> string \<Rightarrow> string" where
  "join [] sep = []"
| "join [x] sep = x"
| "join (x # y # ys) sep = x @ sep @ join (y # ys) sep"

fun num_gt_zero :: "jsnum \<Rightarrow> bool" where
  "num_gt_zero NaN = False"
| "num_gt_zero PosInf = True"
| "num_gt_zero NegInf = False"
| "num_gt_zero (Fin q) = (0 < q)"

section \<open>External collaborators\<close>

text \<open>
  The schemas the chain builds with Joi, one constructor per builder expression of the
  source. The two string schemas with bounds carry \<^verbatim>\<open>minLength\<close> and \<^verbatim>\<open>maxLength\<close>
  as the caller passed them.
\<close>

datatype schema =
    String_allow_empty
  | String_allow_empty_min_max jsval jsval
  | String_min_max jsval jsval
  | String
  | Number_integer
  | Number
  | Date_iso
  | Boolean_strict
  | Object
  | String_email
  | String_guid_v1_v4
  | Array

text \<open>
  Joi, the MongoDB driver, tinyduration and the regular expression engine are not part of
  the repository: the chain takes them as parameters.
  \<^item> \<open>joi_builds sch\<close>: Joi accepts the arguments of a builder (\<^verbatim>\<open>min\<close> and \<^verbatim>\<open>max\<close>
    assert their limit and throw otherwise);
  \<^item> \<open>joi_accepts sch v\<close>: \<^verbatim>\<open>schema.validate(v).error\<close> is absent;
  \<^item> \<open>ObjectID_isValid v\<close>: \<^verbatim>\<open>ObjectID.isValid(v)\<close>;
  \<^item> \<open>tinyduration_parses v\<close>: \<^verbatim>\<open>tinyduration.parse(v)\<close> returns instead of throwing;
  \<^item> \<open>RegExp_new src flags\<close>: \<^verbatim>\<open>new RegExp(src, flags)\<close>, \<open>None\<close> when the constructor
    throws a SyntaxError, otherwise the function \<^verbatim>\<open>field => re.test(field)\<close>;
  \<^item> \<open>ToNumber v\<close>: the language's conversion of a string, array or object to a number.
\<close>

record env =
  joi_builds :: "schema \<Rightarrow> bool"
  joi_accepts :: "schema \<Rightarrow> jsval \<Rightarrow> bool"
  ObjectID_isValid :: "jsval \<Rightarrow> bool"
  tinyduration_parses :: "jsval \<Rightarrow> bool"
  RegExp_new :: "string \<Rightarrow> string \<Rightarrow> (jsval \<Rightarrow> bool) option"
  ToNumber :: "jsval \<Rightarrow> jsnum"

section \<open>The chain\<close>

record messages =
  required :: string
  invalid :: string

text \<open>
  The state that \<^verbatim>\<open>validate\<close> stores on the class. \<open>errors\<close> is the caller's list:
  the chain only pushes to it, so the model keeps its contents.
\<close>

record chain =
  "value" :: jsval
  innerErrorMessage :: messages
  errors :: "string list"
  optional :: bool
  valid :: bool
  prefixError :: string

text \<open>
  A method either returns the chain or throws; what it had already written to the chain
  and to the caller's list stays written, so a throw carries the chain as it was left.
\<close>

type_synonym outcome = "(js_exception \<times> chain) + chain"

definition validate :: "jsval \<Rightarrow> messages \<Rightarrow> string list \<Rightarrow> string \<Rightarrow> chain" where
  "validate v msg errs prefix =
     \<lparr>value = v, innerErrorMessage = msg, errors = errs, optional = False, valid = True,
      prefixError = prefix\<rparr>"

definition isOptional :: "chain \<Rightarrow> chain" where
  "isOptional s = s\<lparr>optional := True\<rparr>"

subsection \<open>Helpers\<close>

text \<open>
  The module's private functions \<^verbatim>\<open>_isNullOrUndefined\<close>, \<^verbatim>\<open>_isEmptyObject\<close>,
  \<^verbatim>\<open>_verifyNullOrUndefined\<close> and \<^verbatim>\<open>_validation\<close>, named here without the underscore.
\<close>

definition isNullOrUndefined :: "jsval \<Rightarrow> bool" where
  "isNullOrUndefined v = (strict_eq v JNull \<or> typeof v = ''undefined'')"

text \<open>
  \<^verbatim>\<open>_isEmptyObject\<close>: no own symbols and no own property names. A string and an array
  own \<^verbatim>\<open>length\<close>; a number and a boolean own nothing; \<^verbatim>\<open>null\<close> and \<^verbatim>\<open>undefined\<close>
  make \<^verbatim>\<open>Object.getOwnPropertySymbols\<close> throw.
\<close>

fun isEmptyObject :: "jsval \<Rightarrow> js_exception + bool" where
  "isEmptyObject JUndefined = Inl TypeError"
| "isEmptyObject JNull = Inl TypeError"
| "isEmptyObject (JBool b) = Inr True"
| "isEmptyObject (JNum n) = Inr True"
| "isEmptyObject (JStr s) = Inr False"
| "isEmptyObject (JArr r xs) = Inr False"
| "isEmptyObject (JObj r ps k) = Inr (k = 0 \<and> length ps = 0)"

text \<open>
  \<^verbatim>\<open>_verifyNullOrUndefined\<close> returns \<^verbatim>\<open>{ isNullOrUndefined, valid }\<close>; the model adds
  the caller's list after the call. The assignment \<^verbatim>\<open>this.valid = false\<close> of its last
  branch stands in an arrow function of the module's top level, where \<^verbatim>\<open>this\<close> is the
  module's first \<^verbatim>\<open>exports\<close> object and not the class: it writes nothing of the chain.
\<close>

definition verifyNullOrUndefined ::
  "bool \<Rightarrow> jsval \<Rightarrow> string list \<Rightarrow> messages \<Rightarrow> string \<Rightarrow> bool \<times> bool \<times> string list" where
  "verifyNullOrUndefined opt v errs msg prefix =
     (if opt \<and> isNullOrUndefined v then (True, False, errs)
      else if \<not> isNullOrUndefined v then (False, True, errs)
      else (True, False, errs @ [prefix @ required msg]))"

text \<open>\<^verbatim>\<open>_validation\<close> returns the verdict; the model adds the caller's list after the call.\<close>

definition validation ::
  "env \<Rightarrow> schema \<Rightarrow> bool \<Rightarrow> jsval \<Rightarrow> string list \<Rightarrow> messages \<Rightarrow> string \<Rightarrow> bool \<times> string list" where
  "validation E sch opt v errs msg prefix =
     (case verifyNullOrUndefined opt v errs msg prefix of
        (isNU, vld, errs') \<Rightarrow>
          if isNU then (vld, errs')
          else if joi_accepts E sch v then (vld, errs')
          else (False, errs' @ [prefix @ invalid msg]))"

text \<open>The chain after \<^verbatim>\<open>_validation\<close> ran on its fields, with the verdict beside it.\<close>

definition run_validation :: "env \<Rightarrow> schema \<Rightarrow> chain \<Rightarrow> bool \<times> chain" where
  "run_validation E sch s =
     (case validation E sch (optional s) (value s) (errors s) (innerErrorMessage s) (prefixError s) of
        (vld, errs') \<Rightarrow> (vld, s\<lparr>errors := errs'\<rparr>))"

text \<open>
  The chain after \<^verbatim>\<open>_verifyNullOrUndefined\<close> ran on its fields and the method stored
  \<^verbatim>\<open>this.valid = valid\<close>, with \<^verbatim>\<open>isNullOrUndefined\<close> beside it.
\<close>

definition run_verify :: "chain \<Rightarrow> bool \<times> chain" where
  "run_verify s =
     (case verifyNullOrUndefined (optional s) (value s) (errors s) (innerErrorMessage s) (prefixError s) of
        (isNU, vld, errs') \<Rightarrow> (isNU, s\<lparr>errors := errs', valid := vld\<rparr>))"

text \<open>
  The two statements every failing rule ends with, in either order:
  \<^verbatim>\<open>this.valid = false; this.errors.push(this.prefixError + this.innerErrorMessage.invalid)\<close>.
\<close>

definition fail_invalid :: "chain \<Rightarrow> chain" where
  "fail_invalid s =
     s\<lparr>valid := False, errors := errors s @ [prefixError s @ invalid (innerErrorMessage s)]\<rparr>"

text \<open>
  The language's own conversions: \<^verbatim>\<open>ToNumber\<close> (a string, an array and an object go
  to the parameter), the global \<^verbatim>\<open>isNaN\<close>, the comparison \<^verbatim>\<open>x > 0\<close>, and the read
  of \<^verbatim>\<open>x.length\<close> (absent on a number and a boolean, a TypeError on \<^verbatim>\<open>null\<close> and
  \<^verbatim>\<open>undefined\<close>).
\<close>

fun to_number :: "env \<Rightarrow> jsval \<Rightarrow> jsnum" where
  "to_number E JUndefined = NaN"
| "to_number E JNull = Fin 0"
| "to_number E (JBool b) = Fin (if b then 1 else 0)"
| "to_number E (JNum n) = n"
| "to_number E v = ToNumber E v"

definition isNaN :: "env \<Rightarrow> jsval \<Rightarrow> bool" where
  "isNaN E v = (to_number E v = NaN)"

definition gt_zero :: "env \<Rightarrow> jsval \<Rightarrow> bool" where
  "gt_zero E v = num_gt_zero (to_number E v)"

fun get_length :: "jsval \<Rightarrow> js_exception + jsval" where
  "get_length JUndefined = Inl TypeError"
| "get_length JNull = Inl TypeError"
| "get_length (JBool b) = Inr JUndefined"
| "get_length (JNum n) = Inr JUndefined"
| "get_length (JStr s) = Inr (JNum (Fin (of_nat (length s))))"
| "get_length (JArr r xs) = Inr (JNum (Fin (of_nat (length xs))))"
| "get_length (JObj r ps k) =
     Inr (case map_of ps ''length'' of None \<Rightarrow> JUndefined | Some v \<Rightarrow> v)"

subsection \<open>The checks\<close>

definition build :: "env \<Rightarrow> schema \<Rightarrow> schema option" where
  "build E sch = (if joi_builds E sch then Some sch else None)"

text \<open>
  The schema \<^verbatim>\<open>isString\<close> builds first; \<open>None\<close> when Joi throws on \<^verbatim>\<open>min\<close> or
  \<^verbatim>\<open>max\<close>.
\<close>

definition string_schema :: "env \<Rightarrow> jsval \<Rightarrow> jsval \<Rightarrow> schema option" where
  "string_schema E minLength maxLength =
     (if typeof minLength = ''undefined'' \<and> typeof maxLength = ''undefined''
      then Some String_allow_empty
      else if strict_eq minLength (JNum (Fin 0))
      then build E (String_allow_empty_min_max minLength maxLength)
      else build E (String_min_max minLength maxLength))"

definition isString :: "env \<Rightarrow> jsval \<Rightarrow> jsval \<Rightarrow> jsval \<Rightarrow> chain \<Rightarrow> outcome" where
  "isString E minLength maxLength notAllowedValues s =
     (case string_schema E minLength maxLength of
        None \<Rightarrow> Inl (JoiAssertion, s)
      | Some sch \<Rightarrow>
          (case run_validation E sch s of
             (vld, s1) \<Rightarrow>
               let s2 = s1\<lparr>valid := vld\<rparr> in
               if truthy notAllowedValues \<and> \<not> Array_isArray notAllowedValues
               then Inl (Error ''notAllowedValues must be an array'', s2)
               else if Array_isArray notAllowedValues
                       \<and> indexOf (elements notAllowedValues) (value s2) > - 1
               then Inr (s2\<lparr>errors := errors s2 @ [invalid (innerErrorMessage s2)]\<rparr>)
               else Inr s2))"

definition isStringEnum :: "env \<Rightarrow> jsval list \<Rightarrow> chain \<Rightarrow> chain" where
  "isStringEnum E enumArray s =
     (case run_validation E String s of
        (vld, s1) \<Rightarrow>
          let s2 = s1\<lparr>valid := vld\<rparr> in
          if \<not> valid s2 \<or> strict_eq (value s2) JUndefined then s2
          else if \<not> array_includes enumArray (value s2) then fail_invalid s2
          else s2)"

definition isNumber :: "env \<Rightarrow> chain \<Rightarrow> chain" where
  "isNumber E s =
     (case run_verify s of
        (isNU, s1) \<Rightarrow>
          if isNU then s1
          else if typeof (value s1) = ''number'' \<and> \<not> isNaN E (value s1)
                  \<and> joi_accepts E Number_integer (value s1)
          then s1
          else fail_invalid s1)"

definition isFloat :: "env \<Rightarrow> chain \<Rightarrow> chain" where
  "isFloat E s =
     (case run_verify s of
        (isNU, s1) \<Rightarrow>
          if isNU then s1
          else if typeof (value s1) = ''number'' \<and> \<not> isNaN E (value s1)
                  \<and> joi_accepts E Number (value s1)
          then s1
          else fail_invalid s1)"

text \<open>\<^verbatim>\<open>isDateISO\<close> and \<^verbatim>\<open>isBoolean\<close> call \<^verbatim>\<open>_validation\<close> and drop what it returns.\<close>

definition isDateISO :: "env \<Rightarrow> chain \<Rightarrow> chain" where
  "isDateISO E s = (case run_validation E Date_iso s of (vld, s1) \<Rightarrow> s1)"

definition isDateIS8601Duration :: "env \<Rightarrow> chain \<Rightarrow> chain" where
  "isDateIS8601Duration E s =
     (case run_validation E String s of
        (vld, s1) \<Rightarrow>
          let s2 = s1\<lparr>valid := vld\<rparr> in
          if \<not> valid s2 then s2
          else if tinyduration_parses E (value s2) then s2
          else fail_invalid s2)"

definition isBoolean :: "env \<Rightarrow> chain \<Rightarrow> chain" where
  "isBoolean E s = (case run_validation E Boolean_strict s of (vld, s1) \<Rightarrow> s1)"

definition isObject :: "env \<Rightarrow> chain \<Rightarrow> chain" where
  "isObject E s = (case run_validation E Object s of (vld, s1) \<Rightarrow> s1\<lparr>valid := vld\<rparr>)"

definition isObjectNotEmpty :: "env \<Rightarrow> chain \<Rightarrow> outcome" where
  "isObjectNotEmpty E s =
     (case run_verify s of
        (isNU, s1) \<Rightarrow>
          if isNU then Inr s1
          else
            (case run_validation E Object s1 of
               (vld, s2) \<Rightarrow>
                 let s3 = s2\<lparr>valid := vld\<rparr> in
                 if \<not> valid s3 then Inr s3
                 else
                   (case isEmptyObject (value s3) of
                      Inl e \<Rightarrow> Inl (e, s3)
                    | Inr isEmpty \<Rightarrow> if \<not> isEmpty then Inr s3 else Inr (fail_invalid s3))))"

definition isObjectId :: "env \<Rightarrow> chain \<Rightarrow> chain" where
  "isObjectId E s =
     (case run_verify s of
        (isNU, s1) \<Rightarrow>
          if isNU then s1
          else if ObjectID_isValid E (value s1) then s1
          else fail_invalid s1)"

definition isEmail :: "env \<Rightarrow> chain \<Rightarrow> chain" where
  "isEmail E s = (case run_validation E String_email s of (vld, s1) \<Rightarrow> s1\<lparr>valid := vld\<rparr>)"

definition isUUID :: "env \<Rightarrow> chain \<Rightarrow> chain" where
  "isUUID E s = (case run_validation E String_guid_v1_v4 s of (vld, s1) \<Rightarrow> s1\<lparr>valid := vld\<rparr>)"

definition isArray :: "env \<Rightarrow> chain \<Rightarrow> chain" where
  "isArray E s = (case run_validation E Array s of (vld, s1) \<Rightarrow> s1\<lparr>valid := vld\<rparr>)"

text \<open>
  The loop of \<^verbatim>\<open>isArrayMatch\<close>: the first field the pattern does not match pushes the
  message, clears \<^verbatim>\<open>valid\<close> and breaks.
\<close>

fun match_fields :: "(jsval \<Rightarrow> bool) \<Rightarrow> jsval list \<Rightarrow> chain \<Rightarrow> chain" where
  "match_fields fieldRegex [] s = s"
| "match_fields fieldRegex (field # rest) s =
     (if \<not> fieldRegex field then fail_invalid s else match_fields fieldRegex rest s)"

definition isArrayMatch :: "env \<Rightarrow> string list \<Rightarrow> chain \<Rightarrow> outcome" where
  "isArrayMatch E validArray s =
     (case run_verify s of
        (isNU, s1) \<Rightarrow>
          if isNU then Inr s1
          else
            (case RegExp_new E (''^('' @ join validArray ''|'' @ '')$'') ''u'' of
               None \<Rightarrow> Inl (SyntaxError, s1)
             | Some fieldRegex \<Rightarrow>
                 let arrayValue = value s1 in
                 if \<not> Array_isArray arrayValue
                 then
                   (if typeof arrayValue \<noteq> ''string'' then Inr (fail_invalid s1)
                    else Inr (match_fields fieldRegex [arrayValue] s1))
                 else Inr (match_fields fieldRegex (elements arrayValue) s1)))"

definition isArrayNotEmpty :: "env \<Rightarrow> chain \<Rightarrow> outcome" where
  "isArrayNotEmpty E s =
     (case run_validation E Array s of
        (vld, s1) \<Rightarrow>
          let s2 = s1\<lparr>valid := vld\<rparr> in
          if \<not> valid s2 then Inr s2
          else
            (case get_length (value s2) of
               Inl e \<Rightarrow> Inl (e, s2)
             | Inr len \<Rightarrow> if gt_zero E len then Inr s2 else Inr (fail_invalid s2)))"

text \<open>\<^verbatim>\<open>custom(func)\<close>: the predicate is a function of the value, read for its truthiness.\<close>

definition custom :: "(jsval \<Rightarrow> jsval) \<Rightarrow> chain \<Rightarrow> chain" where
  "custom func s =
     (case run_verify s of
        (isNU, s1) \<Rightarrow>
          if isNU then s1
          else if truthy (func (value s1)) then s1
          else fail_invalid s1)"

text \<open>
  \<^verbatim>\<open>isValid(func)\<close>: the callback takes no argument and is called for its effects. The
  chain is a property of the class, within the callback's reach like everything else, so
  the callback is a function of the chain and of the rest of the program's state.
\<close>

definition isValid :: "(chain \<times> 'w \<Rightarrow> chain \<times> 'w) \<Rightarrow> chain \<times> 'w \<Rightarrow> chain \<times> 'w" where
  "isValid func st = (if valid (fst st) then func st else st)"

subsection \<open>Every check as one call\<close>

datatype check =
    IsString jsval jsval jsval
  | IsStringEnum "jsval list"
  | IsNumber
  | IsFloat
  | IsDateISO
  | IsDateIS8601Duration
  | IsBoolean
  | IsObject
  | IsObjectNotEmpty
  | IsObjectId
  | IsEmail
  | IsUUID
  | IsArray
  | IsArrayMatch "string list"
  | IsArrayNotEmpty
  | Custom "jsval \<Rightarrow> jsval"

fun call :: "env \<Rightarrow> check \<Rightarrow> chain \<Rightarrow> outcome" where
  "call E (IsString minLength maxLength notAllowedValues) s =
     isString E minLength maxLength notAllowedValues s"
| "call E (IsStringEnum enumArray) s = Inr (isStringEnum E enumArray s)"
| "call E IsNumber s = Inr (isNumber E s)"
| "call E IsFloat s = Inr (isFloat E s)"
| "call E IsDateISO s = Inr (isDateISO E s)"
| "call E IsDateIS8601Duration s = Inr (isDateIS8601Duration E s)"
| "call E IsBoolean s = Inr (isBoolean E s)"
| "call E IsObject s = Inr (isObject E s)"
| "call E IsObjectNotEmpty s = isObjectNotEmpty E s"
| "call E IsObjectId s = Inr (isObjectId E s)"
| "call E IsEmail s = Inr (isEmail E s)"
| "call E IsUUID s = Inr (isUUID E s)"
| "call E IsArray s = Inr (isArray E s)"
| "call E (IsArrayMatch validArray) s = isArrayMatch E validArray s"
| "call E IsArrayNotEmpty s = isArrayNotEmpty E s"
| "call E (Custom func) s = Inr (custom func s)"

text \<open>The chain a call leaves behind, returned or thrown.\<close>

fun chain_of :: "outcome \<Rightarrow> chain" where
  "chain_of (Inl (e, s)) = s"
| "chain_of (Inr s) = s"

section \<open>A reference environment\<close>

text \<open>
  Collaborators to run the chain with on concrete values. The string, number and boolean
  schemas answer as Joi documents them for a string, a finite number and a boolean (a
  limit of \<^verbatim>\<open>min\<close> and \<^verbatim>\<open>max\<close> is a non-negative integer; \<^verbatim>\<open>allow('')\<close> admits the
  empty string, which \<^verbatim>\<open>Joi.string()\<close> alone refuses); the object and array schemas
  look at the kind of the value; the regular expression is the one \<^verbatim>\<open>isArrayMatch\<close>
  builds from \<^verbatim>\<open>["a", "b"]\<close>, on strings. Everything else is refused: the examples
  below do not go there.
\<close>

fun limit_ok :: "jsval \<Rightarrow> bool" where
  "limit_ok (JNum (Fin q)) = (0 \<le> q \<and> of_int \<lfloor>q\<rfloor> = q)"
| "limit_ok _ = False"

fun length_within :: "string \<Rightarrow> jsval \<Rightarrow> jsval \<Rightarrow> bool" where
  "length_within s (JNum (Fin a)) (JNum (Fin b)) =
     (a \<le> of_nat (length s) \<and> of_nat (length s) \<le> b)"
| "length_within s _ _ = False"

fun ref_joi_builds :: "schema \<Rightarrow> bool" where
  "ref_joi_builds (String_allow_empty_min_max a b) = (limit_ok a \<and> limit_ok b)"
| "ref_joi_builds (String_min_max a b) = (limit_ok a \<and> limit_ok b)"
| "ref_joi_builds _ = True"

fun ref_joi_accepts :: "schema \<Rightarrow> jsval \<Rightarrow> bool" where
  "ref_joi_accepts String_allow_empty (JStr s) = True"
| "ref_joi_accepts (String_allow_empty_min_max a b) (JStr s) = (s = [] \<or> length_within s a b)"
| "ref_joi_accepts (String_min_max a b) (JStr s) = (s \<noteq> [] \<and> length_within s a b)"
| "ref_joi_accepts String (JStr s) = (s \<noteq> [])"
| "ref_joi_accepts Number_integer (JNum (Fin q)) = (of_int \<lfloor>q\<rfloor> = q)"
| "ref_joi_accepts Number (JNum (Fin q)) = True"
| "ref_joi_accepts Boolean_strict (JBool b) = True"
| "ref_joi_accepts Object (JObj r ps k) = True"
| "ref_joi_accepts Array (JArr r xs) = True"
| "ref_joi_accepts _ _ = False"

definition ref_RegExp_new :: "string \<Rightarrow> string \<Rightarrow> (jsval \<Rightarrow> bool) option" where
  "ref_RegExp_new src flags =
     (if src = ''^(a|b)$'' \<and> flags = ''u''
      then Some (\<lambda>field. strict_eq field (JStr ''a'') \<or> strict_eq field (JStr ''b''))
      else None)"

definition ref_env :: env where
  "ref_env =
     \<lparr>joi_builds = ref_joi_builds, joi_accepts = ref_joi_accepts,
      ObjectID_isValid = (\<lambda>v. False), tinyduration_parses = (\<lambda>v. False),
      RegExp_new = ref_RegExp_new, ToNumber = (\<lambda>v. NaN)\<rparr>"

definition msgs :: messages where
  "msgs = \<lparr>required = ''is required'', invalid = ''is invalid''\<rparr>"

section \<open>Vocabulary of the properties\<close>

text \<open>
  \<open>is_IsString c\<close>: the call is \<^verbatim>\<open>isString\<close>, the one check with arguments that can
  make it throw before it looks at the value. \<open>not_allowed_hit c v\<close>: the call is
  \<^verbatim>\<open>isString\<close> with an array of not-allowed values that holds \<open>v\<close>.
\<close>

fun is_IsString :: "check \<Rightarrow> bool" where
  "is_IsString (IsString minLength maxLength notAllowedValues) = True"
| "is_IsString _ = False"

fun not_allowed_hit :: "check \<Rightarrow> jsval \<Rightarrow> bool" where
  "not_allowed_hit (IsString minLength maxLength notAllowedValues) v =
     (Array_isArray notAllowedValues \<and> indexOf (elements notAllowedValues) v > - 1)"
| "not_allowed_hit _ v = False"

section \<open>Basic facts\<close>

subsection \<open>Membership by \<^verbatim>\<open>indexOf\<close>\<close>

lemma indexOf_from_found:
  "0 \<le> i \<Longrightarrow> (- 1 < indexOf_from xs x i) = list_ex (\<lambda>y. strict_eq y x) xs"
proof (induction xs arbitrary: i)
  case Nil
  show ?case by simp
next
  case (Cons y ys)
  from Cons.IH [of "i + 1"] Cons.prems show ?case by auto
qed

lemma indexOf_found: "(- 1 < indexOf xs x) = list_ex (\<lambda>y. strict_eq y x) xs"
  by (simp add: indexOf_def indexOf_from_found)

lemma strict_eq_missing: "isNullOrUndefined v \<Longrightarrow> strict_eq y v = (y = v)"
  by (cases v; cases y) (simp_all add: isNullOrUndefined_def)

lemma indexOf_missing: "isNullOrUndefined v \<Longrightarrow> (- 1 < indexOf xs v) = (v \<in> set xs)"
  by (simp add: indexOf_found list_ex_iff strict_eq_missing)

subsection \<open>The three branches of the missing-value helper\<close>

lemma verify_optional_missing:
  "isNullOrUndefined v \<Longrightarrow> opt \<Longrightarrow> verifyNullOrUndefined opt v errs m p = (True, False, errs)"
  by (simp add: verifyNullOrUndefined_def)

lemma verify_required_missing:
  "isNullOrUndefined v \<Longrightarrow> \<not> opt \<Longrightarrow>
   verifyNullOrUndefined opt v errs m p = (True, False, errs @ [p @ required m])"
  by (simp add: verifyNullOrUndefined_def)

lemma verify_present:
  "\<not> isNullOrUndefined v \<Longrightarrow> verifyNullOrUndefined opt v errs m p = (False, True, errs)"
  by (simp add: verifyNullOrUndefined_def)

lemma run_verify_optional_missing:
  "isNullOrUndefined (value s) \<Longrightarrow> optional s \<Longrightarrow> run_verify s = (True, s\<lparr>valid := False\<rparr>)"
  by (simp add: run_verify_def verify_optional_missing)

lemma run_verify_present:
  "\<not> isNullOrUndefined (value s) \<Longrightarrow> run_verify s = (False, s\<lparr>valid := True\<rparr>)"
  by (simp add: run_verify_def verify_present)

lemma run_validation_optional_missing:
  "isNullOrUndefined (value s) \<Longrightarrow> optional s \<Longrightarrow> run_validation E sch s = (False, s)"
  by (simp add: run_validation_def validation_def verify_optional_missing)

lemma run_validation_required_missing:
  "isNullOrUndefined (value s) \<Longrightarrow> \<not> optional s \<Longrightarrow>
   run_validation E sch s =
     (False, s\<lparr>errors := errors s @ [prefixError s @ required (innerErrorMessage s)]\<rparr>)"
  by (simp add: run_validation_def validation_def verify_required_missing)

lemma run_validation_present:
  "\<not> isNullOrUndefined (value s) \<Longrightarrow>
   run_validation E sch s =
     (if joi_accepts E sch (value s) then (True, s)
      else (False, s\<lparr>errors := errors s @ [prefixError s @ invalid (innerErrorMessage s)]\<rparr>))"
  by (simp add: run_validation_def validation_def verify_present)

lemma run_validation_errors:
  "run_validation E sch s = (vld, s1) \<Longrightarrow>
   errors s1 = errors s
   \<or> errors s1 = errors s @ [prefixError s @ required (innerErrorMessage s)]
   \<or> errors s1 = errors s @ [prefixError s @ invalid (innerErrorMessage s)]"
  by (auto simp: run_validation_def validation_def verifyNullOrUndefined_def
      split: prod.splits if_splits)

text \<open>The chain once a check has stored the verdict of \<^verbatim>\<open>_validation\<close>, branch by branch.\<close>

lemma schema_check_chain:
  assumes "run_validation E sch s = (vld, s1)"
  shows "s1\<lparr>valid := vld\<rparr> =
     (if isNullOrUndefined (value s)
      then (if optional s then s\<lparr>valid := False\<rparr>
            else s\<lparr>valid := False,
                   errors := errors s @ [prefixError s @ required (innerErrorMessage s)]\<rparr>)
      else if joi_accepts E sch (value s) then s\<lparr>valid := True\<rparr>
      else s\<lparr>valid := False,
             errors := errors s @ [prefixError s @ invalid (innerErrorMessage s)]\<rparr>)"
proof (cases "isNullOrUndefined (value s)")
  case False
  from run_validation_present [OF this, of E sch] assms show ?thesis
    using False by (auto split: if_splits)
next
  case True
  show ?thesis
  proof (cases "optional s")
    case opt: True
    from run_validation_optional_missing [OF True opt, of E sch] assms True opt
    show ?thesis by auto
  next
    case req: False
    from run_validation_required_missing [OF True req, of E sch] assms True req
    show ?thesis by auto
  qed
qed

subsection \<open>The helpers never read \<open>valid\<close>\<close>

lemma run_verify_valid_irrelevant: "run_verify (s\<lparr>valid := b\<rparr>) = run_verify s"
  by (simp add: run_verify_def split: prod.splits)

lemma run_validation_valid_irrelevant:
  "run_validation E sch (s\<lparr>valid := b\<rparr>)
     = (fst (run_validation E sch s), (snd (run_validation E sch s))\<lparr>valid := b\<rparr>)"
  by (simp add: run_validation_def split: prod.splits)

subsection \<open>\<^verbatim>\<open>isString\<close> after its schema check\<close>

lemma string_schema_undefined: "string_schema E JUndefined JUndefined = Some String_allow_empty"
  by (simp add: string_schema_def)

lemma isString_after_schema:
  "string_schema E mn mx = Some sch \<Longrightarrow> run_validation E sch s = (vld, s1) \<Longrightarrow>
   isString E mn mx nav s =
     (if truthy nav \<and> \<not> Array_isArray nav
      then Inl (Error ''notAllowedValues must be an array'', s1\<lparr>valid := vld\<rparr>)
      else if Array_isArray nav \<and> - 1 < indexOf (elements nav) (value s)
      then Inr (s1\<lparr>valid := vld, errors := errors s1 @ [invalid (innerErrorMessage s)]\<rparr>)
      else Inr (s1\<lparr>valid := vld\<rparr>))"
  by (auto simp: isString_def Let_def run_validation_def split: prod.splits)

lemma isString_optional_missing:
  assumes "isNullOrUndefined (value s)" and "optional s"
  shows "isString E mn mx nav s =
     (case string_schema E mn mx of
        None \<Rightarrow> Inl (JoiAssertion, s)
      | Some sch \<Rightarrow>
          if truthy nav \<and> \<not> Array_isArray nav
          then Inl (Error ''notAllowedValues must be an array'', s\<lparr>valid := False\<rparr>)
          else if Array_isArray nav \<and> - 1 < indexOf (elements nav) (value s)
          then Inr (s\<lparr>valid := False, errors := errors s @ [invalid (innerErrorMessage s)]\<rparr>)
          else Inr (s\<lparr>valid := False\<rparr>))"
  using assms
  by (simp add: isString_def run_validation_optional_missing Let_def split: option.splits)

subsection \<open>\<^verbatim>\<open>isArrayMatch\<close> on a present value\<close>

lemma match_fields_all:
  "match_fields re xs s = (if list_all re xs then s else fail_invalid s)"
  by (induction xs) simp_all

lemma isArrayMatch_present:
  assumes "\<not> isNullOrUndefined (value s)"
    and "RegExp_new E (''^('' @ join va ''|'' @ '')$'') ''u'' = Some re"
  shows "isArrayMatch E va s =
     Inr (if \<not> Array_isArray (value s)
          then (if typeof (value s) \<noteq> ''string'' then fail_invalid (s\<lparr>valid := True\<rparr>)
                else match_fields re [value s] (s\<lparr>valid := True\<rparr>))
          else match_fields re (elements (value s)) (s\<lparr>valid := True\<rparr>))"
  using assms by (simp add: isArrayMatch_def run_verify_present Let_def)

subsection \<open>Every check on an optional missing value\<close>

lemma call_optional_missing:
  assumes "isNullOrUndefined (value s)" and "optional s" and "\<not> is_IsString c"
  shows "call E c s = Inr (if c = IsDateISO \<or> c = IsBoolean then s else s\<lparr>valid := False\<rparr>)"
  using assms
  by (cases c)
    (simp_all add: isStringEnum_def isNumber_def isFloat_def isDateISO_def
      isDateIS8601Duration_def isBoolean_def isObject_def isObjectNotEmpty_def isObjectId_def
      isEmail_def isUUID_def isArray_def isArrayMatch_def isArrayNotEmpty_def custom_def
      run_verify_optional_missing run_validation_optional_missing Let_def)

subsection \<open>Every check on a required missing value\<close>

lemma run_verify_required_missing:
  "isNullOrUndefined (value s) \<Longrightarrow> \<not> optional s \<Longrightarrow>
   run_verify s
     = (True, s\<lparr>errors := errors s @ [prefixError s @ required (innerErrorMessage s)],
               valid := False\<rparr>)"
  by (simp add: run_verify_def verify_required_missing)

lemma call_required_missing:
  assumes "isNullOrUndefined (value s)" and "\<not> optional s" and "\<not> is_IsString c"
  shows "call E c s =
     Inr (if c = IsDateISO \<or> c = IsBoolean
          then s\<lparr>errors := errors s @ [prefixError s @ required (innerErrorMessage s)]\<rparr>
          else s\<lparr>errors := errors s @ [prefixError s @ required (innerErrorMessage s)],
                 valid := False\<rparr>)"
  using assms
  by (cases c)
    (simp_all add: isStringEnum_def isNumber_def isFloat_def isDateISO_def
      isDateIS8601Duration_def isBoolean_def isObject_def isObjectNotEmpty_def isObjectId_def
      isEmail_def isUUID_def isArray_def isArrayMatch_def isArrayNotEmpty_def custom_def
      run_verify_required_missing run_validation_required_missing Let_def)

subsection \<open>The plain schema checks on a present value the schema refuses\<close>

lemma schema_rejects_present:
  assumes "\<not> isNullOrUndefined (value s)"
  shows "\<not> joi_accepts E Object (value s) \<Longrightarrow> isObject E s = fail_invalid s"
    and "\<not> joi_accepts E String_email (value s) \<Longrightarrow> isEmail E s = fail_invalid s"
    and "\<not> joi_accepts E String_guid_v1_v4 (value s) \<Longrightarrow> isUUID E s = fail_invalid s"
    and "\<not> joi_accepts E Array (value s) \<Longrightarrow> isArray E s = fail_invalid s"
    and "\<not> joi_accepts E Date_iso (value s) \<Longrightarrow>
         isDateISO E s = (fail_invalid s)\<lparr>valid := valid s\<rparr>"
    and "\<not> joi_accepts E Boolean_strict (value s) \<Longrightarrow>
         isBoolean E s = (fail_invalid s)\<lparr>valid := valid s\<rparr>"
  using assms
  by (simp_all add: isObject_def isEmail_def isUUID_def isArray_def isDateISO_def isBoolean_def
      run_validation_present fail_invalid_def)

subsection \<open>The reference environment\<close>

lemma ref_env_simps:
  "joi_builds ref_env = ref_joi_builds"
  "joi_accepts ref_env = ref_joi_accepts"
  "RegExp_new ref_env = ref_RegExp_new"
  by (simp_all add: ref_env_def)

section \<open>The claims\<close>

subsection \<open>The verdict over a chain of checks\<close>

text \<open>
  Claim C1, as amended. No check reads the verdict an earlier check left: each check
  other than \<^verbatim>\<open>isDateISO\<close> and \<^verbatim>\<open>isBoolean\<close> assigns \<open>valid\<close> from its own helper call, so
  a call that returns leaves the same chain whatever \<open>valid\<close> was before it. \<open>valid\<close>
  after a call is the verdict of that call alone, and a check that passes on a present
  value sets it to true again after an earlier check had failed.
\<close>

theorem call_overwrites_valid:
  assumes "call E c s = Inr t" and "c \<noteq> IsDateISO" and "c \<noteq> IsBoolean"
  shows "call E c (s\<lparr>valid := b\<rparr>) = Inr t"
proof (cases c)
  case (IsString mn mx nav)
  with assms(1) show ?thesis
    by (auto simp: isString_def run_validation_valid_irrelevant Let_def
        split: option.splits prod.splits if_splits)
next
  case (IsStringEnum xs)
  with assms(1) show ?thesis
    by (auto simp: isStringEnum_def run_validation_valid_irrelevant Let_def fail_invalid_def
        split: prod.splits if_splits)
next
  case IsDateIS8601Duration
  with assms(1) show ?thesis
    by (auto simp: isDateIS8601Duration_def run_validation_valid_irrelevant Let_def
        fail_invalid_def split: prod.splits if_splits)
next
  case IsObjectNotEmpty
  with assms(1) show ?thesis
    by (simp add: isObjectNotEmpty_def run_verify_valid_irrelevant)
next
  case (IsArrayMatch va)
  with assms(1) show ?thesis
    by (simp add: isArrayMatch_def run_verify_valid_irrelevant)
next
  case IsArrayNotEmpty
  with assms(1) show ?thesis
    by (auto simp: isArrayNotEmpty_def run_validation_valid_irrelevant Let_def fail_invalid_def
        split: prod.splits if_splits sum.splits)
qed (use assms in \<open>auto simp: isNumber_def isFloat_def isObject_def isObjectId_def isEmail_def
      isUUID_def isArray_def custom_def run_verify_valid_irrelevant
      run_validation_valid_irrelevant split: prod.splits\<close>)

text \<open>
  At \<^verbatim>\<open>validate("abc", msgs, [])\<close>: \<^verbatim>\<open>isString()\<close> returns the chain with \<open>valid\<close> true,
  and does so as well from the chain with \<open>valid\<close> false.
\<close>

theorem call_overwrites_valid_witness:
  "call ref_env (IsString JUndefined JUndefined JUndefined) (validate (JStr ''abc'') msgs [] [])
     = Inr (validate (JStr ''abc'') msgs [] [])
   \<and> call ref_env (IsString JUndefined JUndefined JUndefined)
       ((validate (JStr ''abc'') msgs [] [])\<lparr>valid := False\<rparr>)
     = Inr (validate (JStr ''abc'') msgs [] [])"
proof -
  have h: "call ref_env (IsString JUndefined JUndefined JUndefined)
      (validate (JStr ''abc'') msgs [] []) = Inr (validate (JStr ''abc'') msgs [] [])"
    by (simp add: isString_def string_schema_def run_validation_def validation_def
        verifyNullOrUndefined_def isNullOrUndefined_def validate_def ref_env_simps)
  from call_overwrites_valid [OF h, of False] h show ?thesis by simp
qed

text \<open>
  The claim as the specification words it fails: after \<^verbatim>\<open>isNumber()\<close> has failed on the
  string \<^verbatim>\<open>"abc"\<close>, \<^verbatim>\<open>isString()\<close> on the same chain returns with \<open>valid\<close> true.
\<close>

theorem valid_returns_to_true_counterexample:
  "\<not> valid (isNumber ref_env (validate (JStr ''abc'') msgs [] []))
   \<and> valid (chain_of (isString ref_env JUndefined JUndefined JUndefined
        (isNumber ref_env (validate (JStr ''abc'') msgs [] []))))"
  by (simp add: isNumber_def isString_def string_schema_def run_verify_def run_validation_def
      validation_def verifyNullOrUndefined_def isNullOrUndefined_def validate_def ref_env_simps
      fail_invalid_def Let_def)

subsection \<open>A missing value\<close>

text \<open>
  Claim C2, as amended. When the value is missing (\<^verbatim>\<open>null\<close> or \<^verbatim>\<open>undefined\<close>) and
  \<open>optional\<close> is true, every check other than \<^verbatim>\<open>isString\<close> returns; a check that returns
  has pushed no message for the missing value (the one message \<^verbatim>\<open>isString\<close> can still
  push is that of its not-allowed list, when the list holds the value); and every check
  other than \<^verbatim>\<open>isDateISO\<close> and \<^verbatim>\<open>isBoolean\<close> leaves \<open>valid\<close> false, the verdict the helper
  returns for an optional missing value.
\<close>

theorem optional_missing_no_message_valid_false:
  assumes "isNullOrUndefined (value s)" and "optional s"
  shows "(\<not> is_IsString c \<longrightarrow> (\<exists>t. call E c s = Inr t))
       \<and> (\<forall>t. call E c s = Inr t \<longrightarrow>
            errors t = errors s
              @ (if not_allowed_hit c (value s) then [invalid (innerErrorMessage s)] else [])
            \<and> (c \<noteq> IsDateISO \<and> c \<noteq> IsBoolean \<longrightarrow> \<not> valid t))"
proof (cases "is_IsString c")
  case False
  from call_optional_missing [OF assms this, of E] False show ?thesis
    by (cases c) auto
next
  case True
  then obtain mn mx nav where c: "c = IsString mn mx nav"
    by (cases c) auto
  show ?thesis
    using isString_optional_missing [OF assms, of E mn mx nav] c
    by (auto split: option.splits if_splits)
qed

text \<open>At \<^verbatim>\<open>validate(undefined, msgs, []).isOptional()\<close>, for \<^verbatim>\<open>isNumber()\<close>.\<close>

theorem optional_missing_no_message_valid_false_witness:
  "isNullOrUndefined (value (isOptional (validate JUndefined msgs [] [])))
   \<and> optional (isOptional (validate JUndefined msgs [] []))
   \<and> (\<exists>t. call ref_env IsNumber (isOptional (validate JUndefined msgs [] [])) = Inr t
        \<and> errors t = [] \<and> \<not> valid t)"
proof -
  let ?s = "isOptional (validate JUndefined msgs [] [])"
  have m: "isNullOrUndefined (value ?s)"
    by (simp add: isOptional_def validate_def isNullOrUndefined_def)
  have opt: "optional ?s"
    by (simp add: isOptional_def validate_def)
  have e: "errors ?s = []"
    by (simp add: isOptional_def validate_def)
  from optional_missing_no_message_valid_false [OF m opt, of IsNumber ref_env] e m opt
  show ?thesis by auto
qed

text \<open>
  The claim as the specification words it fails:
  \<^verbatim>\<open>validate(undefined, msgs, []).isOptional().isString()\<close> ends with \<open>errors\<close> empty and
  \<open>valid\<close> false.
\<close>

theorem optional_missing_isString_counterexample:
  "isString ref_env JUndefined JUndefined JUndefined (isOptional (validate JUndefined msgs [] []))
     = Inr \<lparr>value = JUndefined, innerErrorMessage = msgs, errors = [],
        optional = True, valid = False, prefixError = []\<rparr>"
  by (simp add: isString_def string_schema_def run_validation_def
      validation_def verifyNullOrUndefined_def isNullOrUndefined_def validate_def isOptional_def
      Let_def indexOf_def)

text \<open>
  Claim C4, at the inputs where the code departs from it. On a missing value with
  \<open>optional\<close> false, \<^verbatim>\<open>isDateISO\<close> and \<^verbatim>\<open>isBoolean\<close> push the one required message and
  leave \<open>valid\<close> as \<^verbatim>\<open>validate\<close> set it, true: neither assigns what \<^verbatim>\<open>_validation\<close>
  returns, and the helper's own \<^verbatim>\<open>this.valid = false\<close> does not reach the chain.
\<close>

theorem isDateISO_isBoolean_required_leave_valid:
  "isDateISO E (validate JUndefined m errs p)
     = \<lparr>value = JUndefined, innerErrorMessage = m, errors = errs @ [p @ required m],
        optional = False, valid = True, prefixError = p\<rparr>
   \<and> isBoolean E (validate JUndefined m errs p)
     = \<lparr>value = JUndefined, innerErrorMessage = m, errors = errs @ [p @ required m],
        optional = False, valid = True, prefixError = p\<rparr>"
  by (simp add: isDateISO_def isBoolean_def run_validation_def validation_def
      verifyNullOrUndefined_def isNullOrUndefined_def validate_def)

subsection \<open>A present value that fails its rule\<close>

text \<open>
  Claim C3, at an input where the code departs from it. On the string \<^verbatim>\<open>"yes"\<close>, which
  the strict boolean schema refuses, \<^verbatim>\<open>isBoolean\<close> pushes the prefixed invalid message
  and leaves \<open>valid\<close> true.
\<close>

theorem isBoolean_invalid_leaves_valid:
  "isBoolean ref_env (validate (JStr ''yes'') msgs [] ''flag '')
     = \<lparr>value = JStr ''yes'', innerErrorMessage = msgs, errors = [''flag is invalid''],
        optional = False, valid = True, prefixError = ''flag ''\<rparr>"
  by (simp add: isBoolean_def run_validation_def validation_def verifyNullOrUndefined_def
      isNullOrUndefined_def validate_def ref_env_simps msgs_def)

subsection \<open>\<^verbatim>\<open>isString\<close> and its not-allowed values\<close>

text \<open>
  Claim C5, as amended. When \<^verbatim>\<open>notAllowedValues\<close> is truthy and not an array,
  \<^verbatim>\<open>isString\<close> throws: the call never returns the chain. The throw is not the first thing
  the call does. The schema is built first, and Joi's own throw on a bad \<^verbatim>\<open>min\<close> or
  \<^verbatim>\<open>max\<close> leaves the chain untouched. Then the schema check runs to its end: it pushes
  its required or invalid message, if it has one, and its verdict is stored in \<open>valid\<close>.
  Only then is \<^verbatim>\<open>notAllowedValues must be an array\<close> thrown, and the chain at the throw
  is exactly the chain the schema check left: the violation itself is pushed nowhere.
\<close>

theorem isString_notAllowed_not_array_throws:
  assumes "truthy nav" and "\<not> Array_isArray nav"
  shows "isString E mn mx nav s =
     (case string_schema E mn mx of
        None \<Rightarrow> Inl (JoiAssertion, s)
      | Some sch \<Rightarrow>
          Inl (Error ''notAllowedValues must be an array'',
               if isNullOrUndefined (value s)
               then (if optional s then s\<lparr>valid := False\<rparr>
                     else s\<lparr>valid := False,
                            errors := errors s
                              @ [prefixError s @ required (innerErrorMessage s)]\<rparr>)
               else if joi_accepts E sch (value s) then s\<lparr>valid := True\<rparr>
               else s\<lparr>valid := False,
                      errors := errors s
                        @ [prefixError s @ invalid (innerErrorMessage s)]\<rparr>))"
proof (cases "string_schema E mn mx")
  case None
  then show ?thesis by (simp add: isString_def)
next
  case (Some sch)
  obtain vld s1 where rv: "run_validation E sch s = (vld, s1)"
    by (cases "run_validation E sch s")
  from isString_after_schema [OF Some rv, of nav] assms
  have "isString E mn mx nav s
      = Inl (Error ''notAllowedValues must be an array'', s1\<lparr>valid := vld\<rparr>)"
    by simp
  with schema_check_chain [OF rv] Some show ?thesis
    by simp
qed

text \<open>
  With the reference environment and the not-allowed value \<^verbatim>\<open>"abc"\<close>, a string where an
  array is due, on chains opened with the prefix \<^verbatim>\<open>"name "\<close>: on the string \<^verbatim>\<open>"abc"\<close>
  the throw leaves \<open>valid\<close> true and nothing pushed; on the number 5 it leaves \<open>valid\<close>
  false and the prefixed invalid message of the schema check; on \<^verbatim>\<open>null\<close> with
  \<open>optional\<close> set it leaves \<open>valid\<close> false and nothing pushed.
\<close>

theorem isString_notAllowed_not_array_throws_witness:
  "truthy (JStr ''abc'') \<and> \<not> Array_isArray (JStr ''abc'')
   \<and> isString ref_env JUndefined JUndefined (JStr ''abc'')
       (validate (JStr ''abc'') msgs [] ''name '')
     = Inl (Error ''notAllowedValues must be an array'',
          \<lparr>value = JStr ''abc'', innerErrorMessage = msgs, errors = [],
           optional = False, valid = True, prefixError = ''name ''\<rparr>)
   \<and> isString ref_env JUndefined JUndefined (JStr ''abc'')
       (validate (JNum (Fin 5)) msgs [] ''name '')
     = Inl (Error ''notAllowedValues must be an array'',
          \<lparr>value = JNum (Fin 5), innerErrorMessage = msgs, errors = [''name is invalid''],
           optional = False, valid = False, prefixError = ''name ''\<rparr>)
   \<and> isString ref_env JUndefined JUndefined (JStr ''abc'')
       (isOptional (validate JNull msgs [] ''name ''))
     = Inl (Error ''notAllowedValues must be an array'',
          \<lparr>value = JNull, innerErrorMessage = msgs, errors = [],
           optional = True, valid = False, prefixError = ''name ''\<rparr>)"
proof -
  have t: "truthy (JStr ''abc'')" and a: "\<not> Array_isArray (JStr ''abc'')"
    by simp_all
  from isString_notAllowed_not_array_throws
      [OF t a, of ref_env JUndefined JUndefined "validate (JStr ''abc'') msgs [] ''name ''"]
    isString_notAllowed_not_array_throws
      [OF t a, of ref_env JUndefined JUndefined "validate (JNum (Fin 5)) msgs [] ''name ''"]
    isString_notAllowed_not_array_throws
      [OF t a, of ref_env JUndefined JUndefined "isOptional (validate JNull msgs [] ''name '')"]
  show ?thesis
    by (simp add: string_schema_undefined isNullOrUndefined_def validate_def isOptional_def
        msgs_def ref_env_simps)
qed

text \<open>
  The claim as the specification words it fails: the error is not raised at once. At
  \<^verbatim>\<open>validate(undefined, msgs, [], "name ").isString(undefined, undefined, "abc")\<close> the
  call has pushed the required message and cleared \<open>valid\<close> by the time it throws, so the
  chain the caller is left with is not the chain it passed.
\<close>

theorem isString_throws_after_schema_check_counterexample:
  "isString ref_env JUndefined JUndefined (JStr ''abc'') (validate JUndefined msgs [] ''name '')
     = Inl (Error ''notAllowedValues must be an array'',
          \<lparr>value = JUndefined, innerErrorMessage = msgs, errors = [''name is required''],
           optional = False, valid = False, prefixError = ''name ''\<rparr>)
   \<and> chain_of (isString ref_env JUndefined JUndefined (JStr ''abc'')
        (validate JUndefined msgs [] ''name ''))
     \<noteq> validate JUndefined msgs [] ''name ''"
  by (simp add: isString_def string_schema_def run_validation_def validation_def
      verifyNullOrUndefined_def isNullOrUndefined_def validate_def msgs_def Let_def)

text \<open>
  Claim C9. The membership test of \<^verbatim>\<open>isString\<close> runs after the schema check whatever
  that check found. With an array of not-allowed values, the call returns the chain the
  schema check left (its required or invalid message pushed, if it has one, and its
  verdict in \<open>valid\<close>), and when \<^verbatim>\<open>indexOf\<close> finds the value in the array it has pushed
  \<^verbatim>\<open>innerErrorMessage.invalid\<close> after that, with no prefix, and changed nothing else:
  \<open>valid\<close> is the verdict of the schema check, true on a present value the schema admits.
  In particular on a missing value the array holds, \<open>optional\<close> or not, the call pushes
  the bare invalid message, after the required message when there is one, and \<open>valid\<close>
  is the false the schema check left.
\<close>

theorem isString_notAllowed_membership:
  assumes "string_schema E mn mx = Some sch"
  shows "isString E mn mx (JArr r xs) s =
     Inr (let t = (if isNullOrUndefined (value s)
                   then (if optional s then s\<lparr>valid := False\<rparr>
                         else s\<lparr>valid := False,
                                errors := errors s
                                  @ [prefixError s @ required (innerErrorMessage s)]\<rparr>)
                   else if joi_accepts E sch (value s) then s\<lparr>valid := True\<rparr>
                   else s\<lparr>valid := False,
                          errors := errors s
                            @ [prefixError s @ invalid (innerErrorMessage s)]\<rparr>)
          in if indexOf xs (value s) > - 1
             then t\<lparr>errors := errors t @ [invalid (innerErrorMessage s)]\<rparr>
             else t)
   \<and> (isNullOrUndefined (value s) \<and> value s \<in> set xs \<longrightarrow>
        isString E mn mx (JArr r xs) s =
          Inr (s\<lparr>valid := False,
                 errors := errors s
                   @ (if optional s then []
                      else [prefixError s @ required (innerErrorMessage s)])
                   @ [invalid (innerErrorMessage s)]\<rparr>))"
proof -
  obtain vld s1 where rv: "run_validation E sch s = (vld, s1)"
    by (cases "run_validation E sch s")
  have frame: "errors (s1\<lparr>valid := vld\<rparr>) = errors s1"
    by simp
  from isString_after_schema [OF assms rv, of "JArr r xs"]
  have "isString E mn mx (JArr r xs) s =
      Inr (if - 1 < indexOf xs (value s)
           then (s1\<lparr>valid := vld\<rparr>)\<lparr>errors := errors (s1\<lparr>valid := vld\<rparr>)
                  @ [invalid (innerErrorMessage s)]\<rparr>
           else s1\<lparr>valid := vld\<rparr>)"
    by simp
  then have general: "isString E mn mx (JArr r xs) s =
      Inr (let t = s1\<lparr>valid := vld\<rparr>
           in if indexOf xs (value s) > - 1
              then t\<lparr>errors := errors t @ [invalid (innerErrorMessage s)]\<rparr>
              else t)"
    by (simp add: Let_def)
  show ?thesis
    unfolding general schema_check_chain [OF rv]
    by (auto simp: Let_def indexOf_missing)
qed

text \<open>
  With the reference environment and the not-allowed values \<^verbatim>\<open>["x", null]\<close>, on chains
  opened with the prefix \<^verbatim>\<open>"name "\<close>: on \<^verbatim>\<open>null\<close> with \<open>optional\<close> set, on \<^verbatim>\<open>null\<close>
  without it, on the string \<^verbatim>\<open>"x"\<close>, which the schema admits and the array holds, and on
  the string \<^verbatim>\<open>"y"\<close>, which the array does not hold.
\<close>

theorem isString_notAllowed_membership_witness:
  "string_schema ref_env JUndefined JUndefined = Some String_allow_empty
   \<and> isString ref_env JUndefined JUndefined (JArr 0 [JStr ''x'', JNull])
       (isOptional (validate JNull msgs [] ''name ''))
     = Inr \<lparr>value = JNull, innerErrorMessage = msgs, errors = [''is invalid''],
          optional = True, valid = False, prefixError = ''name ''\<rparr>
   \<and> isString ref_env JUndefined JUndefined (JArr 0 [JStr ''x'', JNull])
       (validate JNull msgs [] ''name '')
     = Inr \<lparr>value = JNull, innerErrorMessage = msgs,
          errors = [''name is required'', ''is invalid''],
          optional = False, valid = False, prefixError = ''name ''\<rparr>
   \<and> isString ref_env JUndefined JUndefined (JArr 0 [JStr ''x'', JNull])
       (validate (JStr ''x'') msgs [] ''name '')
     = Inr \<lparr>value = JStr ''x'', innerErrorMessage = msgs, errors = [''is invalid''],
          optional = False, valid = True, prefixError = ''name ''\<rparr>
   \<and> isString ref_env JUndefined JUndefined (JArr 0 [JStr ''x'', JNull])
       (validate (JStr ''y'') msgs [] ''name '')
     = Inr \<lparr>value = JStr ''y'', innerErrorMessage = msgs, errors = [],
          optional = False, valid = True, prefixError = ''name ''\<rparr>"
proof -
  note sch = string_schema_undefined [of ref_env]
  from isString_notAllowed_membership
      [OF sch, of 0 "[JStr ''x'', JNull]" "isOptional (validate JNull msgs [] ''name '')"]
    isString_notAllowed_membership
      [OF sch, of 0 "[JStr ''x'', JNull]" "validate JNull msgs [] ''name ''"]
    isString_notAllowed_membership
      [OF sch, of 0 "[JStr ''x'', JNull]" "validate (JStr ''x'') msgs [] ''name ''"]
    isString_notAllowed_membership
      [OF sch, of 0 "[JStr ''x'', JNull]" "validate (JStr ''y'') msgs [] ''name ''"]
  show ?thesis
    by (simp add: sch isNullOrUndefined_def validate_def isOptional_def msgs_def
        ref_env_simps indexOf_def Let_def)
qed

text \<open>
  Claim C7. \<^verbatim>\<open>isString(0, 5)\<close> builds \<^verbatim>\<open>Joi.string().allow('').min(0).max(5)\<close> and
  \<^verbatim>\<open>isString()\<close> builds \<^verbatim>\<open>Joi.string().allow('')\<close>. With a Joi that admits the empty string
  under both and refuses \<^verbatim>\<open>"toolong!!"\<close> under the first: \<^verbatim>\<open>isString(0, 5)\<close> on \<^verbatim>\<open>""\<close>
  returns with \<open>valid\<close> true and nothing pushed, on \<^verbatim>\<open>"toolong!!"\<close> with \<open>valid\<close> false and
  the one invalid message pushed; \<^verbatim>\<open>isString()\<close> on \<^verbatim>\<open>""\<close> returns with \<open>valid\<close> true and
  nothing pushed.
\<close>

theorem isString_zero_five:
  assumes "joi_builds E (String_allow_empty_min_max (JNum (Fin 0)) (JNum (Fin 5)))"
    and "joi_accepts E (String_allow_empty_min_max (JNum (Fin 0)) (JNum (Fin 5))) (JStr '''')"
    and "\<not> joi_accepts E (String_allow_empty_min_max (JNum (Fin 0)) (JNum (Fin 5)))
           (JStr ''toolong!!'')"
    and "joi_accepts E String_allow_empty (JStr '''')"
  shows "isString E (JNum (Fin 0)) (JNum (Fin 5)) JUndefined (s\<lparr>value := JStr ''''\<rparr>)
           = Inr (s\<lparr>value := JStr '''', valid := True\<rparr>)
       \<and> isString E (JNum (Fin 0)) (JNum (Fin 5)) JUndefined (s\<lparr>value := JStr ''toolong!!''\<rparr>)
           = Inr (s\<lparr>value := JStr ''toolong!!'', valid := False,
                   errors := errors s @ [prefixError s @ invalid (innerErrorMessage s)]\<rparr>)
       \<and> isString E JUndefined JUndefined JUndefined (s\<lparr>value := JStr ''''\<rparr>)
           = Inr (s\<lparr>value := JStr '''', valid := True\<rparr>)"
proof -
  let ?sch = "String_allow_empty_min_max (JNum (Fin 0)) (JNum (Fin 5))"
  have sch: "string_schema E (JNum (Fin 0)) (JNum (Fin 5)) = Some ?sch"
    using assms(1) by (simp add: string_schema_def build_def)
  have a: "run_validation E ?sch (s\<lparr>value := JStr ''''\<rparr>) = (True, s\<lparr>value := JStr ''''\<rparr>)"
    using assms(2) by (simp add: run_validation_present isNullOrUndefined_def)
  have b: "run_validation E ?sch (s\<lparr>value := JStr ''toolong!!''\<rparr>)
      = (False, s\<lparr>value := JStr ''toolong!!'',
                  errors := errors s @ [prefixError s @ invalid (innerErrorMessage s)]\<rparr>)"
    using assms(3) by (simp add: run_validation_present isNullOrUndefined_def)
  have c: "run_validation E String_allow_empty (s\<lparr>value := JStr ''''\<rparr>)
      = (True, s\<lparr>value := JStr ''''\<rparr>)"
    using assms(4) by (simp add: run_validation_present isNullOrUndefined_def)
  show ?thesis
    using isString_after_schema [OF sch a, of JUndefined]
      isString_after_schema [OF sch b, of JUndefined]
      isString_after_schema [OF string_schema_undefined c, of JUndefined]
    by simp
qed

text \<open>With the reference environment, on chains opened with the prefix \<^verbatim>\<open>"name "\<close>.\<close>

theorem isString_zero_five_witness:
  "isString ref_env (JNum (Fin 0)) (JNum (Fin 5)) JUndefined (validate (JStr '''') msgs [] ''name '')
     = Inr (validate (JStr '''') msgs [] ''name '')
   \<and> isString ref_env (JNum (Fin 0)) (JNum (Fin 5)) JUndefined
       (validate (JStr ''toolong!!'') msgs [] ''name '')
     = Inr \<lparr>value = JStr ''toolong!!'', innerErrorMessage = msgs, errors = [''name is invalid''],
          optional = False, valid = False, prefixError = ''name ''\<rparr>
   \<and> isString ref_env JUndefined JUndefined JUndefined (validate (JStr '''') msgs [] ''name '')
     = Inr (validate (JStr '''') msgs [] ''name '')"
proof -
  let ?sch = "String_allow_empty_min_max (JNum (Fin 0)) (JNum (Fin 5))"
  have h1: "joi_builds ref_env ?sch"
    and h2: "joi_accepts ref_env ?sch (JStr '''')"
    and h3: "\<not> joi_accepts ref_env ?sch (JStr ''toolong!!'')"
    and h4: "joi_accepts ref_env String_allow_empty (JStr '''')"
    by (simp_all add: ref_env_simps)
  from isString_zero_five [OF h1 h2 h3 h4, of "validate (JNum (Fin 1)) msgs [] ''name ''"]
  show ?thesis by (simp add: validate_def msgs_def)
qed

subsection \<open>\<^verbatim>\<open>isArrayMatch\<close>\<close>

text \<open>
  Claim C6. \<^verbatim>\<open>isArrayMatch(["a", "b"])\<close> builds the pattern \<^verbatim>\<open>^(a|b)$\<close>. With a regular
  expression engine for which that pattern matches \<^verbatim>\<open>"a"\<close> and \<^verbatim>\<open>"b"\<close> and not \<^verbatim>\<open>"c"\<close>:
  on \<^verbatim>\<open>"a"\<close> the call returns with \<open>valid\<close> true and nothing pushed; on \<^verbatim>\<open>"c"\<close> and on
  \<^verbatim>\<open>["a", "b", "c"]\<close> with \<open>valid\<close> false and one invalid message pushed; on
  \<^verbatim>\<open>["a", "b"]\<close> with \<open>valid\<close> true and nothing pushed. On any array the loop pushes one
  message when some element does not match and none otherwise, and a present value that
  is neither an array nor a string gets \<open>valid\<close> false and one invalid message.
\<close>

theorem isArrayMatch_a_b:
  assumes "RegExp_new E ''^(a|b)$'' ''u'' = Some re"
    and "re (JStr ''a'')" and "re (JStr ''b'')" and "\<not> re (JStr ''c'')"
  shows "isArrayMatch E [''a'', ''b''] (s\<lparr>value := JStr ''a''\<rparr>)
           = Inr (s\<lparr>value := JStr ''a'', valid := True\<rparr>)
       \<and> isArrayMatch E [''a'', ''b''] (s\<lparr>value := JStr ''c''\<rparr>)
           = Inr (s\<lparr>value := JStr ''c'', valid := False,
                   errors := errors s @ [prefixError s @ invalid (innerErrorMessage s)]\<rparr>)
       \<and> isArrayMatch E [''a'', ''b''] (s\<lparr>value := JArr r [JStr ''a'', JStr ''b'', JStr ''c'']\<rparr>)
           = Inr (s\<lparr>value := JArr r [JStr ''a'', JStr ''b'', JStr ''c''], valid := False,
                   errors := errors s @ [prefixError s @ invalid (innerErrorMessage s)]\<rparr>)
       \<and> isArrayMatch E [''a'', ''b''] (s\<lparr>value := JArr r [JStr ''a'', JStr ''b'']\<rparr>)
           = Inr (s\<lparr>value := JArr r [JStr ''a'', JStr ''b''], valid := True\<rparr>)
       \<and> (\<forall>xs. isArrayMatch E [''a'', ''b''] (s\<lparr>value := JArr r xs\<rparr>)
           = Inr (if list_all re xs then s\<lparr>value := JArr r xs, valid := True\<rparr>
                  else s\<lparr>value := JArr r xs, valid := False,
                         errors := errors s @ [prefixError s @ invalid (innerErrorMessage s)]\<rparr>))
       \<and> (\<forall>v. \<not> isNullOrUndefined v \<and> \<not> Array_isArray v \<and> typeof v \<noteq> ''string'' \<longrightarrow>
            isArrayMatch E [''a'', ''b''] (s\<lparr>value := v\<rparr>)
              = Inr (s\<lparr>value := v, valid := False,
                      errors := errors s @ [prefixError s @ invalid (innerErrorMessage s)]\<rparr>))"
proof -
  have re: "RegExp_new E (''^('' @ join [''a'', ''b''] ''|'' @ '')$'') ''u'' = Some re"
    using assms(1) by simp
  have present: "\<not> isNullOrUndefined (value (s\<lparr>value := JStr x\<rparr>))"
    "\<not> isNullOrUndefined (value (s\<lparr>value := JArr r xs\<rparr>))" for x xs
    by (simp_all add: isNullOrUndefined_def)
  have strings: "isArrayMatch E [''a'', ''b''] (s\<lparr>value := JStr x\<rparr>)
      = Inr (if re (JStr x) then s\<lparr>value := JStr x, valid := True\<rparr>
             else s\<lparr>value := JStr x, valid := False,
                    errors := errors s @ [prefixError s @ invalid (innerErrorMessage s)]\<rparr>)" for x
    using isArrayMatch_present [OF present(1) re, of x]
    by (simp add: fail_invalid_def)
  have arrays: "isArrayMatch E [''a'', ''b''] (s\<lparr>value := JArr r xs\<rparr>)
      = Inr (if list_all re xs then s\<lparr>value := JArr r xs, valid := True\<rparr>
             else s\<lparr>value := JArr r xs, valid := False,
                    errors := errors s @ [prefixError s @ invalid (innerErrorMessage s)]\<rparr>)" for xs
    using isArrayMatch_present [OF present(2) re, of xs]
    by (simp add: match_fields_all fail_invalid_def)
  have others: "isArrayMatch E [''a'', ''b''] (s\<lparr>value := v\<rparr>)
      = Inr (s\<lparr>value := v, valid := False,
              errors := errors s @ [prefixError s @ invalid (innerErrorMessage s)]\<rparr>)"
    if "\<not> isNullOrUndefined v" and "\<not> Array_isArray v" and "typeof v \<noteq> ''string''" for v
    using isArrayMatch_present [of "s\<lparr>value := v\<rparr>", OF _ re] that
    by (simp add: fail_invalid_def)
  show ?thesis
    using assms(2-4) by (simp add: strings arrays others)
qed

text \<open>
  With the reference environment, on chains opened with the prefix \<^verbatim>\<open>"roles "\<close>; the
  last two lines are the array \<^verbatim>\<open>["c", "d"]\<close>, where the loop stops at \<^verbatim>\<open>"c"\<close>, and the
  number 5.
\<close>

theorem isArrayMatch_a_b_witness:
  "isArrayMatch ref_env [''a'', ''b''] (validate (JStr ''a'') msgs [] ''roles '')
     = Inr (validate (JStr ''a'') msgs [] ''roles '')
   \<and> isArrayMatch ref_env [''a'', ''b''] (validate (JStr ''c'') msgs [] ''roles '')
     = Inr \<lparr>value = JStr ''c'', innerErrorMessage = msgs, errors = [''roles is invalid''],
          optional = False, valid = False, prefixError = ''roles ''\<rparr>
   \<and> isArrayMatch ref_env [''a'', ''b'']
       (validate (JArr 0 [JStr ''a'', JStr ''b'', JStr ''c'']) msgs [] ''roles '')
     = Inr \<lparr>value = JArr 0 [JStr ''a'', JStr ''b'', JStr ''c''], innerErrorMessage = msgs,
          errors = [''roles is invalid''], optional = False, valid = False,
          prefixError = ''roles ''\<rparr>
   \<and> isArrayMatch ref_env [''a'', ''b''] (validate (JArr 0 [JStr ''a'', JStr ''b'']) msgs [] ''roles '')
     = Inr (validate (JArr 0 [JStr ''a'', JStr ''b'']) msgs [] ''roles '')
   \<and> isArrayMatch ref_env [''a'', ''b''] (validate (JArr 0 [JStr ''c'', JStr ''d'']) msgs [] ''roles '')
     = Inr \<lparr>value = JArr 0 [JStr ''c'', JStr ''d''], innerErrorMessage = msgs,
          errors = [''roles is invalid''], optional = False, valid = False,
          prefixError = ''roles ''\<rparr>
   \<and> isArrayMatch ref_env [''a'', ''b''] (validate (JNum (Fin 5)) msgs [] ''roles '')
     = Inr \<lparr>value = JNum (Fin 5), innerErrorMessage = msgs, errors = [''roles is invalid''],
          optional = False, valid = False, prefixError = ''roles ''\<rparr>"
proof -
  let ?re = "\<lambda>field. strict_eq field (JStr ''a'') \<or> strict_eq field (JStr ''b'')"
  have h1: "RegExp_new ref_env ''^(a|b)$'' ''u'' = Some ?re"
    by (simp add: ref_env_simps ref_RegExp_new_def)
  have h2: "?re (JStr ''a'')" and h3: "?re (JStr ''b'')" and h4: "\<not> ?re (JStr ''c'')"
    by simp_all
  from isArrayMatch_a_b [OF h1 h2 h3 h4, of "validate JNull msgs [] ''roles ''" 0]
  show ?thesis
    by (simp add: validate_def msgs_def isNullOrUndefined_def)
qed

subsection \<open>\<^verbatim>\<open>isValid\<close>\<close>

text \<open>
  Claim C8. \<^verbatim>\<open>isValid(func)\<close> is the callback when \<open>valid\<close> is true and nothing when it
  is false: whatever the chain and the rest of the state become is the callback's doing.
  With a callback that leaves the chain alone and counts its own calls, the chain comes
  back as it was, \<open>valid\<close> and \<open>errors\<close> included, and the count is one more when \<open>valid\<close>
  is true and unchanged when it is false.
\<close>

theorem isValid_calls_once_when_valid:
  "isValid func (s, w) = (if valid s then func (s, w) else (s, w))
   \<and> isValid (\<lambda>(c, n, u). (c, Suc n, f u)) (s, n, w)
       = (s, (if valid s then Suc n else n), (if valid s then f w else w))"
  by (simp add: isValid_def)

subsection \<open>\<^verbatim>\<open>isNumber\<close> and \<^verbatim>\<open>isFloat\<close>\<close>

text \<open>
  Claim C10. The two checks differ in the Joi schema only, \<^verbatim>\<open>Joi.number().integer()\<close>
  against \<^verbatim>\<open>Joi.number()\<close>. With a Joi whose number schema admits the chain's value when
  its integer schema does: if \<^verbatim>\<open>isNumber()\<close> leaves \<open>valid\<close> true and pushes nothing, so
  does \<^verbatim>\<open>isFloat()\<close> on the same chain.
\<close>

theorem isNumber_accepts_imp_isFloat_accepts:
  assumes "joi_accepts E Number_integer (value s) \<Longrightarrow> joi_accepts E Number (value s)"
    and "valid (isNumber E s)" and "errors (isNumber E s) = errors s"
  shows "valid (isFloat E s) \<and> errors (isFloat E s) = errors s"
  using assms
  by (auto simp: isNumber_def isFloat_def run_verify_def verifyNullOrUndefined_def
      fail_invalid_def split: if_splits)

text \<open>At \<^verbatim>\<open>validate(5, msgs, [])\<close>.\<close>

theorem isNumber_accepts_imp_isFloat_accepts_witness:
  "valid (isNumber ref_env (validate (JNum (Fin 5)) msgs [] []))
   \<and> errors (isNumber ref_env (validate (JNum (Fin 5)) msgs [] [])) = []
   \<and> valid (isFloat ref_env (validate (JNum (Fin 5)) msgs [] []))
   \<and> errors (isFloat ref_env (validate (JNum (Fin 5)) msgs [] [])) = []"
proof -
  let ?s = "validate (JNum (Fin 5)) msgs [] []"
  have n: "isNumber ref_env ?s = ?s"
    by (simp add: isNumber_def run_verify_def verifyNullOrUndefined_def isNullOrUndefined_def
        isNaN_def validate_def ref_env_simps)
  have h1: "joi_accepts ref_env Number (value ?s)"
    by (simp add: validate_def ref_env_simps)
  have h2: "valid (isNumber ref_env ?s)" and h3: "errors (isNumber ref_env ?s) = errors ?s"
    by (simp_all add: n) (simp add: validate_def)
  from isNumber_accepts_imp_isFloat_accepts [OF h1 h2 h3] h2 h3
  show ?thesis by (simp add: validate_def)
qed

end
